theory Spec2Isabelle
  imports Main "HOL-Library.Word"
begin

section \<open>Data model\<close>

text \<open>
  The repository holds two sinks with the same buffering code: \<^verbatim>\<open>DataOps\<close>
  (src/src/DataOps.cpp) and \<^verbatim>\<open>FileOps\<close> (src/src/FileOps.cpp). Their \<^verbatim>\<open>push\<close>,
  \<^verbatim>\<open>pop\<close> and destructor are the same text, member for member, so the members they share
  are the fields of the record \<open>DataOps\<close> and the file sink extends it.

  A data record is \<^verbatim>\<open>std::array<char, 1025>\<close>: a list of 1025 chars. The queue
  \<^verbatim>\<open>std::queue<std::array<char, 1025>>\<close> is a list, front first; \<^verbatim>\<open>q.push(r)\<close> is
  \<open>q @ [r]\<close>.
\<close>

abbreviation NUL :: char where
  "NUL \<equiv> CHR 0x00"

type_synonym data_record = "char list"

type_synonym BufferQ = "data_record list"

text \<open>\<^verbatim>\<open>dataRecord.size()\<close>, the capacity of the array (1024 payload bytes and the byte
  the source reserves "for null termination").\<close>

definition record_size :: nat where
  "record_size = 1025"

text \<open>What the fault list \<^verbatim>\<open>m_excpPtrVec\<close> holds: a \<^verbatim>\<open>std::exception_ptr\<close> is null or
  refers to a caught exception.\<close>

datatype error =
    File_neither_exists_nor_can_be_created
  | Writing_error string

datatype exception_ptr = Nullptr | Exn error

text \<open>Where the watcher thread \<^verbatim>\<open>m_watcher\<close> stands in \<^verbatim>\<open>keepWatchAndPull\<close>.\<close>

datatype watcher_pc = Waiting | Dispatching bool | Checking | Terminated

record DataOps =
  DataRecords :: BufferQ
  dataReady :: bool
  shutAndExit :: bool
  excpPtrVec :: "exception_ptr list"
  notifications :: nat
  watcher_pc :: watcher_pc
  watcher_dataq :: BufferQ

text \<open>
  \<open>notifications\<close> counts the calls of \<^verbatim>\<open>m_DataRecordsCv.notify_one()\<close>;
  \<open>watcher_dataq\<close> is the local \<^verbatim>\<open>dataq\<close> of the watcher thread.
\<close>

section \<open>Strings of the source\<close>

text \<open>
  \<^verbatim>\<open>std::string dataCopy = data.data()\<close> and \<^verbatim>\<open>file << data.data()\<close> read a
  \<^verbatim>\<open>const char*\<close>: the bytes up to the first NUL. The model reads to the end of the
  list when there is no NUL in it (the source then reads on behind the buffer).
\<close>

definition c_str :: "char list \<Rightarrow> string" where
  "c_str bytes = takeWhile (\<lambda>c. c \<noteq> NUL) bytes"

section \<open>push\<close>

text \<open>
  The lambda \<^verbatim>\<open>push\<close> inside \<^verbatim>\<open>push\<close>: \<^verbatim>\<open>std::copy\<close> of the data to the front of
  the array, then, only if \<^verbatim>\<open>data.size() < dataRecord.size()\<close>, \<^verbatim>\<open>std::fill\<close> of the
  rest with NUL. Every call site passes at most 1025 bytes, so each call writes all
  1025 cells and what the array held before never reaches the queue: the record is
  built from the data alone.
\<close>

definition make_record :: "string \<Rightarrow> data_record" where
  "make_record data =
     (if length data < record_size
      then data @ replicate (record_size - length data) NUL
      else data)"

text \<open>
  The loop \<^verbatim>\<open>while (dataCopy.size() > dataRecord.size())\<close>: it enqueues
  \<^verbatim>\<open>dataCopy.substr(0, dataRecord.size() - 1)\<close> and goes on with
  \<^verbatim>\<open>dataCopy.substr(dataRecord.size())\<close>. It returns what is left of \<open>dataCopy\<close>
  and the queue.
\<close>

function split_loop :: "string \<Rightarrow> BufferQ \<Rightarrow> string \<times> BufferQ" where
  "split_loop dataCopy q =
     (if length dataCopy > record_size
      then split_loop (drop record_size dataCopy)
             (q @ [make_record (take (record_size - 1) dataCopy)])
      else (dataCopy, q))"
  by pat_completeness auto
termination
  by (relation "measure (\<lambda>(dataCopy, q). length dataCopy)") (auto simp: record_size_def)

declare split_loop.simps [simp del]

definition enqueue :: "string \<Rightarrow> BufferQ \<Rightarrow> BufferQ" where
  "enqueue data q =
     (if length data > record_size
      then (case split_loop (c_str data) q of
              (dataCopy, q') \<Rightarrow>
                if dataCopy \<noteq> [] then q' @ [make_record dataCopy] else q')
      else q @ [make_record data])"

text \<open>\<^verbatim>\<open>DataOps::push\<close> and \<^verbatim>\<open>FileOps::push\<close>. \<open>enqueue\<close> is the block under the
  lock, the test of the queue size follows it.\<close>

definition push :: "string \<Rightarrow> 'a DataOps_scheme \<Rightarrow> 'a DataOps_scheme" where
  "push data s =
     (if data = [] then s
      else
        let s1 = s\<lparr>DataRecords := enqueue data (DataRecords s)\<rparr>
        in if length (DataRecords s1) = 256
           then s1\<lparr>dataReady := True, notifications := Suc (notifications s1)\<rparr>
           else s1)"

text \<open>\<^verbatim>\<open>DataOps::pop\<close> and \<^verbatim>\<open>FileOps::pop\<close>: the argument is the caller's buffer,
  the result is the returned flag, the buffer and the sink.\<close>

definition pop :: "BufferQ \<Rightarrow> 'a DataOps_scheme \<Rightarrow> bool \<times> BufferQ \<times> 'a DataOps_scheme" where
  "pop data s =
     (if DataRecords s = [] then (False, data, s)
      else (True, DataRecords s, s\<lparr>DataRecords := [], dataReady := False\<rparr>))"

text \<open>The constructor \<^verbatim>\<open>DataOps::DataOps()\<close>; the watcher is started by the
  subclass and waits.\<close>

definition DataOps_init :: DataOps where
  "DataOps_init =
     \<lparr>DataRecords = [], dataReady = False, shutAndExit = False, excpPtrVec = [],
      notifications = 0, watcher_pc = Waiting, watcher_dataq = []\<rparr>"

section \<open>Numeric payloads\<close>

text \<open>\<^verbatim>\<open>std::bitset<N>(data).to_string()\<close>: N characters, the most significant bit
  first. An N-bit unsigned value is an \<open>N word\<close>; the overloads for
  \<^verbatim>\<open>uint8_t\<close>, \<^verbatim>\<open>uint16_t\<close>, \<^verbatim>\<open>uint32_t\<close> and \<^verbatim>\<open>uint64_t\<close> are the
  instances at 8, 16, 32 and 64.\<close>

definition bitset_to_string :: "'a::len word \<Rightarrow> string" where
  "bitset_to_string w =
     map (\<lambda>i. if bit w i then CHR ''1'' else CHR ''0'') (rev [0..<LENGTH('a)])"

section \<open>DataOps: write and append\<close>

text \<open>\<^verbatim>\<open>DataOps::write\<close> hands a non-empty string to the virtual \<^verbatim>\<open>writeDataTo\<close>,
  which the subclasses define; it is a parameter here and may fail.\<close>

definition DataOps_write ::
  "(string \<Rightarrow> 's \<Rightarrow> 'e option \<times> 's) \<Rightarrow> string \<Rightarrow> 's \<Rightarrow> 'e option \<times> 's" where
  "DataOps_write writeDataTo data s =
     (if data = [] then (None, s) else writeDataTo data s)"

definition DataOps_write_uint ::
  "(string \<Rightarrow> 's \<Rightarrow> 'e option \<times> 's) \<Rightarrow> 'a::len word \<Rightarrow> 's \<Rightarrow> 'e option \<times> 's" where
  "DataOps_write_uint writeDataTo data s =
     DataOps_write writeDataTo (bitset_to_string data) s"

text \<open>The loop \<^verbatim>\<open>for (const auto& bindata : binaryStream) write(bindata);\<close> of
  \<^verbatim>\<open>write(vector)\<close>; an exception ends it.\<close>

fun DataOps_write_each ::
  "(string \<Rightarrow> 's \<Rightarrow> 'e option \<times> 's) \<Rightarrow> 'a::len word list \<Rightarrow> 's \<Rightarrow> 'e option \<times> 's" where
  "DataOps_write_each writeDataTo [] s = (None, s)"
| "DataOps_write_each writeDataTo (bindata # rest) s =
     (case DataOps_write_uint writeDataTo bindata s of
        (Some e, s') \<Rightarrow> (Some e, s')
      | (None, s') \<Rightarrow> DataOps_write_each writeDataTo rest s')"

definition DataOps_write_vector ::
  "(string \<Rightarrow> 's \<Rightarrow> 'e option \<times> 's) \<Rightarrow> 'a::len word list \<Rightarrow> 's \<Rightarrow> 'e option \<times> 's" where
  "DataOps_write_vector writeDataTo binaryStream s =
     (if binaryStream \<noteq> [] then DataOps_write_each writeDataTo binaryStream s
      else (None, s))"

definition DataOps_append ::
  "(string \<Rightarrow> 's \<Rightarrow> 'e option \<times> 's) \<Rightarrow> string \<Rightarrow> 's \<Rightarrow> 'e option \<times> 's" where
  "DataOps_append writeDataTo data s = DataOps_write writeDataTo data s"

definition DataOps_append_uint ::
  "(string \<Rightarrow> 's \<Rightarrow> 'e option \<times> 's) \<Rightarrow> 'a::len word \<Rightarrow> 's \<Rightarrow> 'e option \<times> 's" where
  "DataOps_append_uint writeDataTo data s =
     DataOps_write writeDataTo (bitset_to_string data) s"

text \<open>The loop of \<^verbatim>\<open>append(vector)\<close>, a text of its own in the source.\<close>

fun DataOps_append_each ::
  "(string \<Rightarrow> 's \<Rightarrow> 'e option \<times> 's) \<Rightarrow> 'a::len word list \<Rightarrow> 's \<Rightarrow> 'e option \<times> 's" where
  "DataOps_append_each writeDataTo [] s = (None, s)"
| "DataOps_append_each writeDataTo (bindata # rest) s =
     (case DataOps_write_uint writeDataTo bindata s of
        (Some e, s') \<Rightarrow> (Some e, s')
      | (None, s') \<Rightarrow> DataOps_append_each writeDataTo rest s')"

definition DataOps_append_vector ::
  "(string \<Rightarrow> 's \<Rightarrow> 'e option \<times> 's) \<Rightarrow> 'a::len word list \<Rightarrow> 's \<Rightarrow> 'e option \<times> 's" where
  "DataOps_append_vector writeDataTo binaryStream s =
     (if binaryStream \<noteq> [] then DataOps_append_each writeDataTo binaryStream s
      else (None, s))"

section \<open>FileOps: the file sink\<close>

text \<open>
  The members of \<^verbatim>\<open>FileOps\<close> and, with them, what it sees of the file system:
  \<open>disk\<close> maps the path of an existing file to its content, \<open>openable p\<close> says whether
  a \<^verbatim>\<open>std::ofstream\<close> on \<open>p\<close> opens (it creates the file when it does), and
  \<open>current_path\<close> is \<^verbatim>\<open>std::filesystem::current_path()\<close>. A path object is the
  string it was built from.

  The mutex \<^verbatim>\<open>m_FileOpsMutex\<close> and the flag \<^verbatim>\<open>m_isFileOpsRunning\<close> serialise the
  file operations; each is one step here, and the flag, false whenever a step starts
  and ends, is not part of the state.
\<close>

record FileOps = DataOps +
  FileName :: string
  FilePath :: string
  FileExtension :: string
  FilePathObj :: string
  MaxFileSize :: nat
  disk :: "string \<rightharpoonup> string"
  openable :: "string \<Rightarrow> bool"
  current_path :: string

subsection \<open>Path composition\<close>

text \<open>\<^verbatim>\<open>std::string::find_last_of(c)\<close>: the index of the last occurrence, \<open>None\<close> for
  \<^verbatim>\<open>npos\<close>.\<close>

definition find_last_of :: "string \<Rightarrow> char \<Rightarrow> nat option" where
  "find_last_of str c =
     (if c \<in> set str
      then Some (length str - 1 - length (takeWhile (\<lambda>x. x \<noteq> c) (rev str)))
      else None)"

definition DEFAULT_FILE_EXTN :: string where
  "DEFAULT_FILE_EXTN = ''.txt''"

text \<open>The lambda \<^verbatim>\<open>getSeparator\<close>, in its branch for Linux, macOS and the BSDs.\<close>

definition getSeparator :: string where
  "getSeparator = ''/''"

abbreviation BACKSLASH :: char where
  "BACKSLASH \<equiv> CHR 0x5C"

definition populateFilePathObj :: "string \<times> string \<times> string \<Rightarrow> FileOps \<Rightarrow> FileOps" where
  "populateFilePathObj fileDetails s =
     (case fileDetails of (name, path, extn) \<Rightarrow>
        let s1 = (if name \<noteq> [] then s\<lparr>FileName := name\<rparr> else s);
            s2 = (if path \<noteq> [] then s1\<lparr>FilePath := path\<rparr> else s1);
            s3 = (if extn \<noteq> [] then s2\<lparr>FileExtension := extn\<rparr> else s2)
        in
          if FileName s3 \<noteq> [] then
            let s4 =
                  (if FileExtension s3 = [] then
                     (case find_last_of (FileName s3) CHR ''.'' of
                        Some i \<Rightarrow> s3\<lparr>FileExtension := drop i (FileName s3)\<rparr>
                      | None \<Rightarrow>
                          s3\<lparr>FileExtension := DEFAULT_FILE_EXTN,
                             FileName := FileName s3 @ DEFAULT_FILE_EXTN\<rparr>)
                   else
                     s3\<lparr>FileName :=
                          (case find_last_of (FileName s3) CHR ''.'' of
                             Some i \<Rightarrow> take i (FileName s3)
                           | None \<Rightarrow> FileName s3) @ FileExtension s3\<rparr>);
                s5 =
                  (if FilePath s4 = [] then
                     (case (case find_last_of (FileName s4) CHR ''/'' of
                              Some i \<Rightarrow> Some i
                            | None \<Rightarrow> find_last_of (FileName s4) BACKSLASH) of
                        Some pathSeparator \<Rightarrow>
                          s4\<lparr>FilePath := take (pathSeparator + 1) (FileName s4),
                             FileName := drop (pathSeparator + 1) (FileName s4)\<rparr>
                      | None \<Rightarrow> s4\<lparr>FilePath := current_path s4 @ getSeparator\<rparr>)
                   else
                     (if last (FilePath s4) \<noteq> CHR ''/'' \<and> last (FilePath s4) \<noteq> BACKSLASH
                      then s4\<lparr>FilePath := FilePath s4 @ getSeparator\<rparr>
                      else s4))
            in s5\<lparr>FilePathObj := FilePath s5 @ FileName s5\<rparr>
          else s3)"

text \<open>The builder-style setters: each returns \<^verbatim>\<open>*this\<close>, here the sink.\<close>

definition setFileName :: "string \<Rightarrow> FileOps \<Rightarrow> FileOps" where
  "setFileName fileName s =
     (if fileName = [] \<or> fileName = FileName s then s
      else populateFilePathObj (fileName, [], []) s)"

definition setFilePath :: "string \<Rightarrow> FileOps \<Rightarrow> FileOps" where
  "setFilePath filePath s =
     (if filePath = [] \<or> filePath = FilePath s then s
      else populateFilePathObj ([], filePath, []) s)"

definition setFileExtension :: "string \<Rightarrow> FileOps \<Rightarrow> FileOps" where
  "setFileExtension fileExtension s =
     (if fileExtension = [] \<or> fileExtension = FileExtension s then s
      else populateFilePathObj ([], [], fileExtension) s)"

text \<open>
  The constructor: the members are initialised, then \<^verbatim>\<open>populateFilePathObj\<close> runs on
  them and the watcher thread starts. The flags start as in \<^verbatim>\<open>DataOps::DataOps()\<close>.
  The fault list of \<^verbatim>\<open>FileOps\<close> is static, so the sink finds it as the process left
  it (\<open>faults\<close>); the last three arguments are the file system.
\<close>

definition FileOps_new ::
  "nat \<Rightarrow> string \<Rightarrow> string \<Rightarrow> string \<Rightarrow> exception_ptr list \<Rightarrow>
   (string \<rightharpoonup> string) \<Rightarrow> (string \<Rightarrow> bool) \<Rightarrow> string \<Rightarrow> FileOps" where
  "FileOps_new maxFileSize fileName filePath fileExtension faults files can_open cwd =
     populateFilePathObj (fileName, filePath, fileExtension)
       \<lparr>DataRecords = [], dataReady = False, shutAndExit = False, excpPtrVec = faults,
        notifications = 0, watcher_pc = Waiting, watcher_dataq = [],
        FileName = fileName, FilePath = filePath, FileExtension = fileExtension,
        FilePathObj = [], MaxFileSize = maxFileSize,
        disk = files, openable = can_open, current_path = cwd\<rparr>"

subsection \<open>Writing\<close>

text \<open>The static \<^verbatim>\<open>FileOps::fileExists(file)\<close>.\<close>

definition fileExists_at :: "FileOps \<Rightarrow> string \<Rightarrow> bool" where
  "fileExists_at s file = (if file = [] then False else disk s file \<noteq> None)"

text \<open>Modelled from the spec: the member \<^verbatim>\<open>fileExists()\<close> without argument is declared
  in FileOps.hpp, which is not among the sources; it is the "existence check" of the
  sink's own destination, the static function at \<^verbatim>\<open>m_FilePathObj\<close>.\<close>

definition fileExists :: "FileOps \<Rightarrow> bool" where
  "fileExists s = fileExists_at s (FilePathObj s)"

text \<open>The member \<^verbatim>\<open>createFile()\<close>: the returned flag and the sink.\<close>

definition createFile :: "FileOps \<Rightarrow> bool \<times> FileOps" where
  "createFile s =
     (if \<not> fileExists s then
        (if openable s (FilePathObj s)
         then (True, s\<lparr>disk := (disk s)(FilePathObj s \<mapsto> [])\<rparr>)
         else (False, s))
      else (False, s))"

text \<open>\<^verbatim>\<open>writeFile(std::string_view)\<close>: \<open>Some e\<close> is the exception it throws.\<close>

definition writeFile :: "string \<Rightarrow> FileOps \<Rightarrow> error option \<times> FileOps" where
  "writeFile data s =
     (if data = [] then (None, s)
      else if \<not> fileExists s then
        (case createFile s of
           (True, s') \<Rightarrow> (None, push data s')
         | (False, s') \<Rightarrow> (Some File_neither_exists_nor_can_be_created, s'))
      else (None, push data s))"

definition writeFile_uint :: "'a::len word \<Rightarrow> FileOps \<Rightarrow> error option \<times> FileOps" where
  "writeFile_uint data s = writeFile (bitset_to_string data) s"

fun writeFile_each :: "'a::len word list \<Rightarrow> FileOps \<Rightarrow> error option \<times> FileOps" where
  "writeFile_each [] s = (None, s)"
| "writeFile_each (bindata # rest) s =
     (case writeFile_uint bindata s of
        (Some e, s') \<Rightarrow> (Some e, s')
      | (None, s') \<Rightarrow> writeFile_each rest s')"

definition writeFile_vector :: "'a::len word list \<Rightarrow> FileOps \<Rightarrow> error option \<times> FileOps" where
  "writeFile_vector binaryStream s =
     (if binaryStream \<noteq> [] then writeFile_each binaryStream s else (None, s))"

definition appendFile :: "string \<Rightarrow> FileOps \<Rightarrow> error option \<times> FileOps" where
  "appendFile data s = writeFile data s"

definition appendFile_uint :: "'a::len word \<Rightarrow> FileOps \<Rightarrow> error option \<times> FileOps" where
  "appendFile_uint data s = writeFile (bitset_to_string data) s"

fun appendFile_each :: "'a::len word list \<Rightarrow> FileOps \<Rightarrow> error option \<times> FileOps" where
  "appendFile_each [] s = (None, s)"
| "appendFile_each (bindata # rest) s =
     (case writeFile_uint bindata s of
        (Some e, s') \<Rightarrow> (Some e, s')
      | (None, s') \<Rightarrow> appendFile_each rest s')"

definition appendFile_vector :: "'a::len word list \<Rightarrow> FileOps \<Rightarrow> error option \<times> FileOps" where
  "appendFile_vector binaryStream s =
     (if binaryStream \<noteq> [] then appendFile_each binaryStream s else (None, s))"

subsection \<open>The writer and the watcher\<close>

abbreviation NEWLINE :: char where
  "NEWLINE \<equiv> CHR 0x0A"

text \<open>
  \<^verbatim>\<open>writeToFile(dataQueue, excpPtr)\<close>: the result is what is left of the queue, the
  exception pointer behind the reference, and the sink. When the file opens, every
  record is popped and written as a C string with a line break; when it does not, the
  \<^verbatim>\<open>runtime_error\<close> thrown inside the \<^verbatim>\<open>try\<close> is caught and stored through the reference.
\<close>

definition writeToFile ::
  "BufferQ \<Rightarrow> exception_ptr \<Rightarrow> FileOps \<Rightarrow> BufferQ \<times> exception_ptr \<times> FileOps" where
  "writeToFile dataQueue excpPtr s =
     (if dataQueue = [] then (dataQueue, excpPtr, s)
      else if openable s (FilePathObj s) then
        ([], excpPtr,
         s\<lparr>disk := (disk s)(FilePathObj s \<mapsto>
              (case disk s (FilePathObj s) of None \<Rightarrow> [] | Some content \<Rightarrow> content) @
              concat (map (\<lambda>data. c_str data @ [NEWLINE]) dataQueue))\<rparr>)
      else (dataQueue, Exn (Writing_error (FilePathObj s)), s))"

text \<open>
  \<^verbatim>\<open>FileOps::keepWatchAndPull\<close>, one atomic section at a time.
  \<^item> \<open>Waiting\<close>: under the queue's mutex, the wait for \<^verbatim>\<open>m_dataReady || m_shutAndExit\<close>
    (the step does nothing while neither holds), then \<^verbatim>\<open>pop(dataq)\<close>, the unlock and
    the \<^verbatim>\<open>notify_one\<close>.
  \<^item> \<open>Dispatching success\<close>: if \<open>success\<close>, a null \<^verbatim>\<open>excpPtr\<close> is declared, a copy of it
    is appended to \<^verbatim>\<open>m_excpPtrVec\<close>, and the writer thread runs \<^verbatim>\<open>writeToFile\<close> on
    \<^verbatim>\<open>dataq\<close> and a reference to the local \<^verbatim>\<open>excpPtr\<close>, which is then joined. What
    the writer stores in the local is dropped with it.
  \<^item> \<open>Checking\<close>: \<^verbatim>\<open>if (m_shutAndExit) break;\<close>, else the loop starts again.
\<close>

definition watcher_step :: "FileOps \<Rightarrow> FileOps" where
  "watcher_step s =
     (case watcher_pc s of
        Waiting \<Rightarrow>
          (if dataReady s \<or> shutAndExit s then
             (case pop (watcher_dataq s) s of
                (success, dataq, s') \<Rightarrow>
                  s'\<lparr>watcher_dataq := dataq,
                     notifications := Suc (notifications s'),
                     watcher_pc := Dispatching success\<rparr>)
           else s)
      | Dispatching success \<Rightarrow>
          (if success then
             (let excpPtr = Nullptr;
                  s1 = s\<lparr>excpPtrVec := excpPtrVec s @ [excpPtr]\<rparr>
              in case writeToFile (watcher_dataq s1) excpPtr s1 of
                   (dataq, excpPtr', s2) \<Rightarrow>
                     s2\<lparr>watcher_dataq := dataq, watcher_pc := Checking\<rparr>)
           else s\<lparr>watcher_pc := Checking\<rparr>)
      | Checking \<Rightarrow>
          (if shutAndExit s then s\<lparr>watcher_pc := Terminated\<rparr>
           else s\<lparr>watcher_pc := Waiting\<rparr>)
      | Terminated \<Rightarrow> s)"

text \<open>The destructor \<^verbatim>\<open>~FileOps\<close> (and \<^verbatim>\<open>~DataOps\<close>): the flag is set under the
  mutex and the watcher is notified; then \<^verbatim>\<open>m_watcher.join()\<close> waits for the thread to
  end. \<open>join n\<close> lets the watcher run for at most \<open>n\<close> sections and is \<open>None\<close> if it has
  not ended by then.\<close>

definition request_shutdown :: "'a DataOps_scheme \<Rightarrow> 'a DataOps_scheme" where
  "request_shutdown s = s\<lparr>shutAndExit := True, notifications := Suc (notifications s)\<rparr>"

fun join :: "nat \<Rightarrow> FileOps \<Rightarrow> FileOps option" where
  "join 0 s = (if watcher_pc s = Terminated then Some s else None)"
| "join (Suc n) s = (if watcher_pc s = Terminated then Some s else join n (watcher_step s))"

definition destroy :: "nat \<Rightarrow> FileOps \<Rightarrow> FileOps option" where
  "destroy n s = join n (request_shutdown s)"

subsection \<open>Schedules\<close>

text \<open>
  The threads of one sink meet at the queue's mutex, so a run of the sink is a sequence
  of atomic sections: a producer's call of \<^verbatim>\<open>writeFile\<close>, the next section of the
  watcher, or the locked part of the destructor. An exception of \<^verbatim>\<open>writeFile\<close> goes to
  the producer and leaves the sink as it is.
\<close>

datatype event = Write string | Watcher | Shutdown

fun exec :: "event \<Rightarrow> FileOps \<Rightarrow> FileOps" where
  "exec (Write data) s = snd (writeFile data s)"
| "exec Watcher s = watcher_step s"
| "exec Shutdown s = request_shutdown s"

definition run :: "event list \<Rightarrow> FileOps \<Rightarrow> FileOps" where
  "run events s = foldl (\<lambda>s e. exec e s) s events"

text \<open>Pushes and drains on the queue alone: \<open>drains\<close> collects the batches that the
  successful calls of \<^verbatim>\<open>pop\<close> hand out, in order.\<close>

datatype queue_op = Push string | Drain

fun drains :: "queue_op list \<Rightarrow> 'a DataOps_scheme \<Rightarrow> BufferQ list \<times> 'a DataOps_scheme" where
  "drains [] s = ([], s)"
| "drains (Push data # ops) s = drains ops (push data s)"
| "drains (Drain # ops) s =
     (case pop [] s of
        (True, batch, s') \<Rightarrow> (case drains ops s' of (batches, s'') \<Rightarrow> (batch # batches, s''))
      | (False, _, s') \<Rightarrow> drains ops s')"

text \<open>What one operation adds to the queue: the records a push enqueues on the sink
  that \<^verbatim>\<open>DataOps::DataOps()\<close> builds.\<close>

fun records_of :: "queue_op \<Rightarrow> BufferQ" where
  "records_of (Push data) = DataRecords (push data DataOps_init)"
| "records_of Drain = []"

text \<open>Calls of \<^verbatim>\<open>push\<close> one after the other.\<close>

definition pushes :: "string list \<Rightarrow> 'a DataOps_scheme \<Rightarrow> 'a DataOps_scheme" where
  "pushes payloads s = foldl (\<lambda>s data. push data s) s payloads"

subsection \<open>Sinks for the scenarios\<close>

text \<open>
  Four file sinks as the constructor builds them for the name \<^verbatim>\<open>app.txt\<close> in the
  directory \<^verbatim>\<open>/var/log\<close>. The static fault list is as its initialiser \<^verbatim>\<open>{0}\<close> leaves
  it: one null pointer. \<open>log_sink\<close> has its file, empty and writable; \<open>locked_sink\<close>
  has the file, but no stream on it opens (the destination has become unwritable);
  \<open>absent_sink\<close> has no file and none can be created; \<open>fresh_sink\<close> has no file yet,
  and the first write creates it.
\<close>

definition log_path :: string where
  "log_path = ''/var/log/app.txt''"

definition log_sink :: FileOps where
  "log_sink =
     FileOps_new 0 ''app.txt'' ''/var/log'' [] [Nullptr]
       [log_path \<mapsto> []] (\<lambda>file. True) ''/home''"

definition locked_sink :: FileOps where
  "locked_sink =
     FileOps_new 0 ''app.txt'' ''/var/log'' [] [Nullptr]
       [log_path \<mapsto> []] (\<lambda>file. False) ''/home''"

definition absent_sink :: FileOps where
  "absent_sink =
     FileOps_new 0 ''app.txt'' ''/var/log'' [] [Nullptr]
       Map.empty (\<lambda>file. False) ''/home''"


subsection \<open>Reading binary digits\<close>


section \<open>Facts about the encoding and the queue\<close>

lemma c_str_no_NUL: "NUL \<notin> set bytes \<Longrightarrow> c_str bytes = bytes"
  by (auto simp: c_str_def takeWhile_eq_all_conv)

lemma c_str_make_record: "NUL \<notin> set data \<Longrightarrow> c_str (make_record data) = data"
  by (auto simp: c_str_def make_record_def takeWhile_eq_all_conv takeWhile_append)

lemma split_loop_short: "length d \<le> record_size \<Longrightarrow> split_loop d q = (d, q)"
  by (subst split_loop.simps) simp

lemma split_loop_long:
  "length d > record_size \<Longrightarrow>
   split_loop d q = split_loop (drop record_size d) (q @ [make_record (take (record_size - 1) d)])"
  by (subst split_loop.simps) simp

text \<open>The loop only appends to the queue it is given.\<close>

lemma split_loop_queue:
  "split_loop d q = (fst (split_loop d []), q @ snd (split_loop d []))"
proof (induction "length d" arbitrary: d q rule: less_induct)
  case less
  show ?case
  proof (cases "length d > record_size")
    case True
    let ?d = "drop record_size d" and ?r = "make_record (take (record_size - 1) d)"
    have shorter: "length ?d < length d"
      using True by (simp add: record_size_def)
    have "split_loop d q = split_loop ?d (q @ [?r])"
      using True by (rule split_loop_long)
    also have "\<dots> = (fst (split_loop ?d []), (q @ [?r]) @ snd (split_loop ?d []))"
      using less [OF shorter] .
    finally have a: "split_loop d q = (fst (split_loop ?d []), q @ ?r # snd (split_loop ?d []))"
      by simp
    have "split_loop d [] = split_loop ?d ([] @ [?r])"
      using True by (rule split_loop_long)
    also have "\<dots> = (fst (split_loop ?d []), ([] @ [?r]) @ snd (split_loop ?d []))"
      using less [OF shorter] .
    finally have b: "split_loop d [] = (fst (split_loop ?d []), ?r # snd (split_loop ?d []))"
      by simp
    show ?thesis
      by (simp add: a b)
  next
    case False
    then show ?thesis by (simp add: split_loop_short)
  qed
qed

lemma enqueue_queue: "enqueue data q = q @ enqueue data []"
proof (cases "length data > record_size")
  case True
  show ?thesis
    using True
    by (subst (1 2) enqueue_def, subst split_loop_queue) (simp add: case_prod_beta)
next
  case False
  then show ?thesis by (simp add: enqueue_def)
qed

lemma enqueue_short:
  "length data \<le> record_size \<Longrightarrow> enqueue data q = q @ [make_record data]"
  by (simp add: enqueue_def)

text \<open>A payload without NUL of 1026 to 2050 bytes: the loop runs once.\<close>

lemma enqueue_two:
  assumes "NUL \<notin> set data" "record_size < length data" "length data \<le> 2 * record_size"
  shows "enqueue data q = q @ [make_record (take (record_size - 1) data)] @
            (if length data = record_size then [] else [make_record (drop record_size data)])"
  using assms
  by (simp add: enqueue_def c_str_no_NUL split_loop_long split_loop_short)

lemma DataRecords_push:
  "DataRecords (push data s) = (if data = [] then DataRecords s else enqueue data (DataRecords s))"
  by (simp add: push_def Let_def)

lemma dataReady_push:
  "dataReady (push data s) =
     (if data \<noteq> [] \<and> length (enqueue data (DataRecords s)) = 256 then True else dataReady s)"
  by (simp add: push_def Let_def)

lemma notifications_push:
  "notifications (push data s) =
     (if data \<noteq> [] \<and> length (enqueue data (DataRecords s)) = 256
      then Suc (notifications s) else notifications s)"
  by (simp add: push_def Let_def)

lemma DataRecords_push_init:
  "DataRecords (push data s) = DataRecords s @ DataRecords (push data DataOps_init)"
  by (simp add: DataRecords_push DataOps_init_def enqueue_queue [of data "DataRecords s"])

lemma pop_empty: "DataRecords s = [] \<Longrightarrow> pop data s = (False, data, s)"
  by (simp add: pop_def)

lemma pop_nonempty:
  "DataRecords s \<noteq> [] \<Longrightarrow>
   pop data s = (True, DataRecords s, s\<lparr>DataRecords := [], dataReady := False\<rparr>)"
  by (simp add: pop_def)

lemma drains_conserve:
  "concat (fst (drains ops s)) @ DataRecords (snd (drains ops s)) =
   DataRecords s @ concat (map records_of ops)"
proof (induction ops arbitrary: s)
  case Nil
  show ?case by simp
next
  case (Cons op ops)
  show ?case
  proof (cases op)
    case (Push data)
    have "concat (fst (drains ops (push data s))) @ DataRecords (snd (drains ops (push data s))) =
          DataRecords (push data s) @ concat (map records_of ops)"
      by (rule Cons.IH)
    then show ?thesis
      by (simp add: Push DataRecords_push_init [of data s])
  next
    case Drain
    show ?thesis
    proof (cases "DataRecords s = []")
      case True
      with Cons.IH [of s] show ?thesis
        by (simp add: Drain pop_empty)
    next
      case False
      with Cons.IH [of "s\<lparr>DataRecords := [], dataReady := False\<rparr>"] show ?thesis
        by (simp add: Drain pop_nonempty case_prod_beta)
    qed
  qed
qed

lemma pushes_Nil: "pushes [] s = s"
  by (simp add: pushes_def)

lemma pushes_Cons: "pushes (data # rest) s = pushes rest (push data s)"
  by (simp add: pushes_def)

lemma push_short:
  "data \<noteq> [] \<Longrightarrow> length data \<le> record_size \<Longrightarrow>
   push data s =
     (if Suc (length (DataRecords s)) = 256
      then s\<lparr>DataRecords := DataRecords s @ [make_record data], dataReady := True,
             notifications := Suc (notifications s)\<rparr>
      else s\<lparr>DataRecords := DataRecords s @ [make_record data]\<rparr>)"
  by (simp add: push_def enqueue_short Let_def)

text \<open>Single-record pushes in a row: the flag is set by the push that makes the queue
  256 long, if there is one.\<close>

lemma pushes_short:
  "\<forall>data \<in> set payloads. data \<noteq> [] \<and> length data \<le> record_size \<Longrightarrow>
   pushes payloads s =
     (let crossing = (length (DataRecords s) < 256 \<and>
                      256 \<le> length (DataRecords s) + length payloads)
      in s\<lparr>DataRecords := DataRecords s @ map make_record payloads,
           dataReady := (dataReady s \<or> crossing),
           notifications := (if crossing then Suc (notifications s) else notifications s)\<rparr>)"
proof (induction payloads arbitrary: s)
  case Nil
  have "\<not> (length (DataRecords s) < 256 \<and> 256 \<le> length (DataRecords s))"
    by arith
  then show ?case by (simp add: pushes_Nil Let_def cong: conj_cong)
next
  case (Cons data rest)
  have d: "data \<noteq> []" "length data \<le> record_size" and
       r: "\<forall>data \<in> set rest. data \<noteq> [] \<and> length data \<le> record_size"
    using Cons.prems by simp_all
  show ?case
  proof (cases "Suc (length (DataRecords s)) = 256")
    case True
    then show ?thesis
      by (simp add: pushes_Cons Cons.IH [OF r] push_short [OF d] Let_def)
  next
    case False
    then have "(Suc (length (DataRecords s)) < 256 \<and>
                 256 \<le> Suc (length (DataRecords s) + length rest)) =
               (length (DataRecords s) < 256 \<and>
                 256 \<le> Suc (length (DataRecords s) + length rest))"
      by arith
    with False show ?thesis
      by (simp add: pushes_Cons Cons.IH [OF r] push_short [OF d] Let_def)
  qed
qed

text \<open>When the queue is exactly 256 long after a push, the push has set the flag and
  notified the watcher; 256 one-byte payloads on a new sink reach that length with the
  256th.\<close>

lemma push_at_threshold:
  "data \<noteq> [] \<Longrightarrow> length (DataRecords (push data s)) = 256 \<Longrightarrow>
   dataReady (push data s) \<and> notifications (push data s) = Suc (notifications s)"
  by (simp add: DataRecords_push dataReady_push notifications_push)

lemma pushes_one_byte:
  "dataReady (pushes (replicate n [c]) DataOps_init) = (256 \<le> n) \<and>
   length (DataRecords (pushes (replicate n [c]) DataOps_init)) = n"
  by (simp add: pushes_short record_size_def DataOps_init_def Let_def)

lemma make_record_padded:
  "length data < record_size \<Longrightarrow>
   length (make_record data) = record_size \<and>
   take (length data) (make_record data) = data \<and>
   drop (length data) (make_record data) = replicate (record_size - length data) NUL \<and>
   last (make_record data) = NUL"
  by (simp add: make_record_def)

section \<open>Facts about the file sink\<close>

lemma find_last_of_dot: "find_last_of ''app.txt'' CHR ''.'' = Some 3"
  by (simp add: find_last_of_def)

text \<open>The three sinks, as the constructor leaves them.\<close>

lemma log_sink_eq:
  "log_sink =
     \<lparr>DataRecords = [], dataReady = False, shutAndExit = False, excpPtrVec = [Nullptr],
      notifications = 0, watcher_pc = Waiting, watcher_dataq = [],
      FileName = ''app.txt'', FilePath = ''/var/log/'', FileExtension = ''.txt'',
      FilePathObj = log_path, MaxFileSize = 0,
      disk = [log_path \<mapsto> []], openable = (\<lambda>file. True), current_path = ''/home''\<rparr>"
  by (simp add: log_sink_def FileOps_new_def populateFilePathObj_def find_last_of_dot
      getSeparator_def log_path_def)

lemma locked_sink_eq:
  "locked_sink =
     \<lparr>DataRecords = [], dataReady = False, shutAndExit = False, excpPtrVec = [Nullptr],
      notifications = 0, watcher_pc = Waiting, watcher_dataq = [],
      FileName = ''app.txt'', FilePath = ''/var/log/'', FileExtension = ''.txt'',
      FilePathObj = log_path, MaxFileSize = 0,
      disk = [log_path \<mapsto> []], openable = (\<lambda>file. False), current_path = ''/home''\<rparr>"
  by (simp add: locked_sink_def FileOps_new_def populateFilePathObj_def find_last_of_dot
      getSeparator_def log_path_def)

lemma absent_sink_eq:
  "absent_sink =
     \<lparr>DataRecords = [], dataReady = False, shutAndExit = False, excpPtrVec = [Nullptr],
      notifications = 0, watcher_pc = Waiting, watcher_dataq = [],
      FileName = ''app.txt'', FilePath = ''/var/log/'', FileExtension = ''.txt'',
      FilePathObj = log_path, MaxFileSize = 0,
      disk = Map.empty, openable = (\<lambda>file. False), current_path = ''/home''\<rparr>"
  by (simp add: absent_sink_def FileOps_new_def populateFilePathObj_def find_last_of_dot
      getSeparator_def log_path_def)

lemma fileExists_log_sink: "fileExists log_sink"
  by (simp add: log_sink_eq fileExists_def fileExists_at_def log_path_def)

text \<open>\<^verbatim>\<open>push\<close> touches the queue, the flag and the notifications only.\<close>

lemma push_frame:
  "FilePathObj (push data s) = FilePathObj s" "disk (push data s) = disk s"
  "openable (push data s) = openable s" "watcher_pc (push data s) = watcher_pc s"
  "shutAndExit (push data s) = shutAndExit s" "excpPtrVec (push data s) = excpPtrVec s"
  "watcher_dataq (push data s) = watcher_dataq s"
  by (simp_all add: push_def Let_def)

lemma fileExists_push: "fileExists (push data s) = fileExists s"
  by (simp add: fileExists_def fileExists_at_def push_frame)

lemma writeFile_existing: "fileExists s \<Longrightarrow> writeFile data s = (None, push data s)"
  by (simp add: writeFile_def push_def)

lemma writeFile_uint_existing:
  "fileExists s \<Longrightarrow> writeFile_uint w s = (None, push (bitset_to_string w) s)"
  by (simp add: writeFile_uint_def writeFile_existing)

lemma writeFile_each_existing:
  "fileExists s \<Longrightarrow> writeFile_each ws s = (None, pushes (map bitset_to_string ws) s)"
proof (induction ws arbitrary: s)
  case Nil
  show ?case by (simp add: pushes_Nil)
next
  case (Cons w ws)
  have "fileExists (push (bitset_to_string w) s)"
    using Cons.prems by (simp add: fileExists_push)
  then show ?case
    using Cons.prems by (simp add: writeFile_uint_existing Cons.IH pushes_Cons)
qed

lemma appendFile_each_eq: "appendFile_each ws s = writeFile_each ws s"
  by (induction ws arbitrary: s) (simp_all split: prod.splits option.splits)

lemma DataOps_append_each_eq:
  "DataOps_append_each writeDataTo ws s = DataOps_write_each writeDataTo ws s"
  by (induction ws arbitrary: s) (simp_all split: prod.splits option.splits)

subsection \<open>The binary digits of a word\<close>










subsection \<open>When a write returns\<close>







subsection \<open>Schedules and the watcher\<close>

lemma run_Nil: "run [] s = s"
  by (simp add: run_def)

lemma run_Cons: "run (e # es) s = run es (exec e s)"
  by (simp add: run_def)

lemma run_append: "run (es @ es') s = run es' (run es s)"
  by (simp add: run_def)

lemma run_writes: "fileExists s \<Longrightarrow> run (map Write payloads) s = pushes payloads s"
proof (induction payloads arbitrary: s)
  case Nil
  show ?case by (simp add: run_Nil pushes_Nil)
next
  case (Cons data rest)
  have "fileExists (push data s)"
    using Cons.prems by (simp add: fileExists_push)
  then show ?case
    using Cons.prems by (simp add: run_Cons pushes_Cons writeFile_existing Cons.IH)
qed

lemma map_Write_replicate: "replicate n (Write data) = map Write (replicate n data)"
  by simp

lemma join_3: "join 3 s = join (Suc (Suc (Suc 0))) s"
  by (simp add: numeral_3_eq_3)

text \<open>Once the shutdown flag is set the watcher ends within three sections, wherever it
  stands: the join of the destructor returns.\<close>

lemma join_after_shutdown: "shutAndExit s \<Longrightarrow> \<exists>s'. join 3 s = Some s'"
  by (cases "watcher_pc s")
    (simp_all add: join_3 watcher_step_def pop_def writeToFile_def Let_def)

text \<open>A shutdown that finds the watcher waiting gets the last drain: the whole queue is
  written before the thread ends.\<close>

lemma destroy_from_waiting:
  assumes "watcher_pc s = Waiting" and "openable s (FilePathObj s)"
  shows "\<exists>s'. destroy 3 s = Some s' \<and> DataRecords s' = [] \<and>
           disk s' (FilePathObj s) =
             (if DataRecords s = [] then disk s (FilePathObj s)
              else Some ((case disk s (FilePathObj s) of None \<Rightarrow> [] | Some content \<Rightarrow> content) @
                     concat (map (\<lambda>data. c_str data @ [NEWLINE]) (DataRecords s))))"
  using assms
  by (simp add: destroy_def request_shutdown_def join_3 watcher_step_def pop_def
      writeToFile_def Let_def)

text \<open>256 one-record writes fill the queue to the threshold; then the watcher takes the
  batch, a producer writes once more, the destructor sets the flag, and the watcher
  writes its batch and leaves the loop.\<close>

lemma full_queue:
  "run (replicate 256 (Write ''x'')) log_sink =
     log_sink\<lparr>DataRecords := replicate 256 (make_record ''x''), dataReady := True,
              notifications := 1\<rparr>"
proof -
  have w: "run (replicate 256 (Write ''x'')) log_sink = pushes (replicate 256 ''x'') log_sink"
    unfolding map_Write_replicate by (rule run_writes) (rule fileExists_log_sink)
  show ?thesis
    by (subst w) (simp add: pushes_short record_size_def Let_def log_sink_eq)
qed

lemma c_str_x: "c_str (make_record ''x'') = ''x''"
  by (simp add: c_str_make_record)

lemma after_full_queue:
  "run [Watcher, Write ''late'', Shutdown, Watcher, Watcher]
     (log_sink\<lparr>DataRecords := replicate 256 (make_record ''x''), dataReady := True,
              notifications := 1\<rparr>) =
   log_sink\<lparr>DataRecords := [make_record ''late''], shutAndExit := True,
            excpPtrVec := [Nullptr, Nullptr], notifications := 3, watcher_pc := Terminated,
            disk := [log_path \<mapsto> concat (replicate 256 (''x'' @ [NEWLINE]))]\<rparr>"
  by (simp add: log_sink_eq run_Cons run_Nil watcher_step_def pop_def writeFile_def
      fileExists_def fileExists_at_def log_path_def push_short record_size_def
      request_shutdown_def writeToFile_def c_str_x map_replicate_const)

section \<open>The claims\<close>

text \<open>
  C1. The claim: a payload of \<open>k * 1024 + r\<close> bytes is split into consecutive 1024-byte
  chunks, \<open>k + (if r > 0 then 1 else 0)\<close> records, whose trimmed payloads concatenate to
  the payload. The code takes 1024 bytes for a record and then skips 1025
  (\<^verbatim>\<open>substr(dataRecord.size())\<close>), and it splits only payloads longer than 1025 bytes:
  of the 1026 bytes \<open>a\<dots>abc\<close> the byte \<open>b\<close> at index 1024 reaches no record, and a
  payload of 2050 bytes gives two records where the claim counts three.
\<close>

theorem C1_push_drops_a_byte:
  "map c_str (DataRecords (push (replicate 1024 CHR ''a'' @ ''bc'') DataOps_init)) =
     [replicate 1024 CHR ''a'', ''c''] \<and>
   concat (map c_str (DataRecords (push (replicate 1024 CHR ''a'' @ ''bc'') DataOps_init))) \<noteq>
     replicate 1024 CHR ''a'' @ ''bc'' \<and>
   length (DataRecords (push (replicate 2050 CHR ''a'') DataOps_init)) = 2"
  by (simp add: push_def DataOps_init_def enqueue_two record_size_def c_str_make_record)

text \<open>
  C2. The claim: every record in the queue is zero-filled behind its payload and holds
  at most 1024 meaningful bytes, so that its last byte, reserved for the terminator, is
  zero. The code copies a payload of exactly 1025 bytes into the record whole and fills
  nothing; the same happens to the last chunk of a payload of 2050 bytes. Such a record
  has no NUL at all.
\<close>

theorem C2_record_without_terminator:
  "DataRecords (push (replicate 1025 CHR ''a'') DataOps_init) = [replicate 1025 CHR ''a''] \<and>
   last (replicate 1025 CHR ''a'') \<noteq> NUL \<and>
   DataRecords (push (replicate 2050 CHR ''a'') DataOps_init) =
     [replicate 1024 CHR ''a'' @ [NUL], replicate 1025 CHR ''a'']"
  by (simp add: push_def DataOps_init_def enqueue_two enqueue_short make_record_def record_size_def)

text \<open>
  C3. The claim: when the file cannot be opened for a batch, the writer captures the
  failure as a fault record appended to the fault list, which gains one entry for the
  failed batch; nothing is thrown to the watcher or the producers, and the write call
  has returned normally. In the code the watcher appends a copy of the still null
  \<^verbatim>\<open>excpPtr\<close> to \<^verbatim>\<open>m_excpPtrVec\<close> before the writer thread starts, and
  \<^verbatim>\<open>writeToFile\<close> stores the caught exception in the watcher's local variable, which
  is dropped. On the sink whose file exists but does not open: \<^verbatim>\<open>writeFile\<close> returns
  normally, \<^verbatim>\<open>writeToFile\<close> does catch the error, and after the destructor has let the
  watcher drain, the fault list is the null pointer it started with and one more null
  pointer, the batch is gone and the file is empty as before. The sink whose file opens
  ends with the same fault list.
\<close>

theorem C3_fault_list_gets_a_null_pointer:
  "fst (writeFile ''x'' locked_sink) = None \<and>
   fst (snd (writeToFile [make_record ''x''] Nullptr locked_sink)) =
     Exn (Writing_error ''/var/log/app.txt'') \<and>
   map_option (\<lambda>s. (excpPtrVec s, DataRecords s, disk s log_path))
     (destroy 3 (snd (writeFile ''x'' locked_sink))) =
     Some ([Nullptr, Nullptr], [], Some []) \<and>
   map_option excpPtrVec (destroy 3 (snd (writeFile ''x'' log_sink))) =
     Some [Nullptr, Nullptr]"
  by (simp add: locked_sink_eq log_sink_eq writeFile_def fileExists_def fileExists_at_def
      log_path_def push_short record_size_def destroy_def request_shutdown_def join_3
      watcher_step_def pop_def writeToFile_def)

text \<open>
  C4. The claim: \<^verbatim>\<open>write\<close>, \<^verbatim>\<open>append\<close> and \<^verbatim>\<open>push\<close> never fail on I/O grounds, only
  on a programmer's error such as a destination that was never initialised. As stated
  it fails: on a sink whose path the constructor has resolved, with no file there and a
  file system that does not let one be created, \<^verbatim>\<open>writeFile\<close> throws.
\<close>

theorem C4_write_throws_when_file_cannot_be_created:
  "FilePathObj absent_sink = ''/var/log/app.txt'' \<and>
   fst (writeFile ''x'' absent_sink) = Some File_neither_exists_nor_can_be_created"
  by (simp add: absent_sink_eq writeFile_def createFile_def fileExists_def fileExists_at_def
      log_path_def)

text \<open>
  C4, as the code has it: \<^verbatim>\<open>writeFile\<close> and \<^verbatim>\<open>appendFile\<close> throw exactly when the
  payload is not empty and the file neither exists nor can be created, whatever the
  reason (a path never set, or a file system that refuses); in particular a file that
  exists but cannot be written makes no call fail. \<^verbatim>\<open>DataOps::write\<close> and
  \<^verbatim>\<open>append\<close> fail exactly when the payload is not empty and \<^verbatim>\<open>writeDataTo\<close> fails.
  \<^verbatim>\<open>push\<close> has no failure at all: it is a total function on the sink.
\<close>

theorem C4_write_fails_without_file:
  "(fst (writeFile data s) \<noteq> None) =
     (data \<noteq> [] \<and> \<not> fileExists s \<and> \<not> openable s (FilePathObj s)) \<and>
   (fst (appendFile data s) \<noteq> None) =
     (data \<noteq> [] \<and> \<not> fileExists s \<and> \<not> openable s (FilePathObj s)) \<and>
   (fst (DataOps_write writeDataTo data t) \<noteq> None) =
     (data \<noteq> [] \<and> fst (writeDataTo data t) \<noteq> None) \<and>
   (fst (DataOps_append writeDataTo data t) \<noteq> None) =
     (data \<noteq> [] \<and> fst (writeDataTo data t) \<noteq> None)"
  by (simp add: writeFile_def appendFile_def createFile_def DataOps_write_def DataOps_append_def)

theorem C4_write_fails_without_file_witness:
  "fst (writeFile ''x'' absent_sink) \<noteq> None \<and> fst (writeFile ''x'' locked_sink) = None \<and>
   fst (writeFile [] absent_sink) = None"
  using C4_write_fails_without_file [of "''x''" absent_sink, THEN conjunct1]
        C4_write_fails_without_file [of "''x''" locked_sink, THEN conjunct1]
        C4_write_fails_without_file [of "[]" absent_sink, THEN conjunct1]
  by (simp add: absent_sink_eq locked_sink_eq fileExists_def fileExists_at_def log_path_def)

text \<open>
  C5. The claim: a push, of one record or of several, that brings the queue to the
  threshold of 256 sets the ready flag and notifies the watcher. The code tests
  \<^verbatim>\<open>m_DataRecords.size() == 256\<close> after the push (its comment says "at least 256
  elements"): on a queue of 255 records a payload of 1026 bytes adds two records, the
  queue is 257 long, and the flag stays false with no notification. The pushes before
  it are 255 one-record pushes on a new sink.
\<close>

theorem C5_push_steps_over_threshold:
  "length (DataRecords (pushes (replicate 255 ''x'') DataOps_init)) = 255 \<and>
   length (DataRecords (push (replicate 1026 CHR ''y'')
             (pushes (replicate 255 ''x'') DataOps_init))) = 257 \<and>
   dataReady (push (replicate 1026 CHR ''y'')
             (pushes (replicate 255 ''x'') DataOps_init)) = False \<and>
   notifications (push (replicate 1026 CHR ''y'')
             (pushes (replicate 255 ''x'') DataOps_init)) = 0"
  by (simp add: pushes_short record_size_def DataOps_init_def Let_def push_def enqueue_two)

text \<open>
  C6. \<^verbatim>\<open>pop\<close> on an empty queue returns false and changes neither the sink nor the
  caller's buffer; on a non-empty queue it returns true, hands the whole queue over in
  its order, leaves the queue empty and clears the ready flag. Whatever the order of
  pushes and drains, the batches handed out, one after the other, followed by what is
  still queued, are the records that were queued at the start followed by the records
  of the pushes in their order: no record is in two batches and none is lost.
\<close>

theorem C6_pop_hands_over_the_whole_queue:
  "(DataRecords s = [] \<longrightarrow> pop data s = (False, data, s)) \<and>
   (DataRecords s \<noteq> [] \<longrightarrow>
      pop data s = (True, DataRecords s, s\<lparr>DataRecords := [], dataReady := False\<rparr>)) \<and>
   concat (fst (drains ops s)) @ DataRecords (snd (drains ops s)) =
     DataRecords s @ concat (map records_of ops)"
  by (simp add: pop_def drains_conserve)

theorem C6_pop_hands_over_the_whole_queue_witness:
  "pop [] DataOps_init = (False, [], DataOps_init) \<and>
   pop [] (push ''a'' DataOps_init) =
     (True, [make_record ''a''],
      (push ''a'' DataOps_init)\<lparr>DataRecords := [], dataReady := False\<rparr>) \<and>
   fst (drains [Push ''a'', Push ''b'', Drain, Push ''c'', Drain, Drain, Push ''d'']
          DataOps_init) =
     [[make_record ''a'', make_record ''b''], [make_record ''c'']] \<and>
   DataRecords (snd (drains [Push ''a'', Push ''b'', Drain, Push ''c'', Drain, Drain, Push ''d'']
          DataOps_init)) = [make_record ''d''] \<and>
   concat (fst (drains [Push ''a'', Push ''b'', Drain, Push ''c'', Drain, Drain, Push ''d'']
          DataOps_init)) @
   DataRecords (snd (drains [Push ''a'', Push ''b'', Drain, Push ''c'', Drain, Drain, Push ''d'']
          DataOps_init)) =
     [make_record ''a'', make_record ''b'', make_record ''c'', make_record ''d'']"
  using C6_pop_hands_over_the_whole_queue [of DataOps_init "[]"
           "[Push ''a'', Push ''b'', Drain, Push ''c'', Drain, Drain, Push ''d'']"]
        C6_pop_hands_over_the_whole_queue [of "push ''a'' DataOps_init" "[]" "[]"]
  by (simp add: DataOps_init_def push_short record_size_def pop_def)

text \<open>
  C7. The claim: if shutdown is requested while records are in the queue, the watcher
  drains and writes them once more before it ends, and the destructor joins the thread.
  The thread does end and is joined (\<open>join_after_shutdown\<close>), and a watcher that is
  waiting when the flag is set does drain the queue (\<open>destroy_from_waiting\<close>). But the
  loop tests \<^verbatim>\<open>m_shutAndExit\<close> after every batch without looking at the queue again:
  when the flag is set while the watcher is writing a batch, what was pushed after its
  \<^verbatim>\<open>pop\<close> stays in the queue. Here 256 writes wake the watcher, it takes the batch, the
  producer writes \<open>late\<close> and destroys the sink, the watcher writes its 256 lines and
  ends: \<open>late\<close> is still queued and never reaches the file.
\<close>

theorem C7_shutdown_leaves_a_record_behind:
  "watcher_pc (run (replicate 256 (Write ''x'') @
                    [Watcher, Write ''late'', Shutdown, Watcher, Watcher]) log_sink) = Terminated \<and>
   DataRecords (run (replicate 256 (Write ''x'') @
                    [Watcher, Write ''late'', Shutdown, Watcher, Watcher]) log_sink) =
     [make_record ''late''] \<and>
   disk (run (replicate 256 (Write ''x'') @
                    [Watcher, Write ''late'', Shutdown, Watcher, Watcher]) log_sink) log_path =
     Some (concat (replicate 256 (''x'' @ [NEWLINE])))"
  by (simp only: run_append full_queue after_full_queue) simp

text \<open>
  C8. For a string, for an unsigned value of any width and for a vector of such values,
  \<^verbatim>\<open>append\<close> returns what \<^verbatim>\<open>write\<close> returns and leaves the sink as \<^verbatim>\<open>write\<close> leaves
  it, in \<^verbatim>\<open>FileOps\<close> and in \<^verbatim>\<open>DataOps\<close> (whatever \<^verbatim>\<open>writeDataTo\<close> does).
\<close>

theorem C8_append_is_write:
  "appendFile data s = writeFile data s \<and>
   appendFile_uint w s = writeFile_uint w s \<and>
   appendFile_vector ws s = writeFile_vector ws s \<and>
   DataOps_append writeDataTo data t = DataOps_write writeDataTo data t \<and>
   DataOps_append_uint writeDataTo w t = DataOps_write_uint writeDataTo w t \<and>
   DataOps_append_vector writeDataTo ws t = DataOps_write_vector writeDataTo ws t"
  by (simp add: appendFile_def appendFile_uint_def writeFile_uint_def appendFile_vector_def
      writeFile_vector_def appendFile_each_eq DataOps_append_def DataOps_append_uint_def
      DataOps_write_uint_def DataOps_append_vector_def DataOps_write_vector_def
      DataOps_append_each_eq)




text \<open>
  C10. \<^verbatim>\<open>setFileName\<close>, \<^verbatim>\<open>setFilePath\<close> and \<^verbatim>\<open>setFileExtension\<close>, called with an empty
  argument or with the value the sink already has, return the sink as it was: name,
  path, extension and path object are unchanged, and so is everything else.
\<close>

theorem C10_setters_keep_the_sink:
  "(fileName = [] \<or> fileName = FileName s \<longrightarrow> setFileName fileName s = s) \<and>
   (filePath = [] \<or> filePath = FilePath s \<longrightarrow> setFilePath filePath s = s) \<and>
   (fileExtension = [] \<or> fileExtension = FileExtension s \<longrightarrow>
      setFileExtension fileExtension s = s)"
  by (simp add: setFileName_def setFilePath_def setFileExtension_def)

theorem C10_setters_keep_the_sink_witness:
  "setFileName [] log_sink = log_sink \<and>
   setFileName ''app.txt'' log_sink = log_sink \<and>
   setFilePath [] log_sink = log_sink \<and>
   setFilePath ''/var/log/'' log_sink = log_sink \<and>
   setFileExtension [] log_sink = log_sink \<and>
   setFileExtension ''.txt'' log_sink = log_sink"
  using C10_setters_keep_the_sink [of "[]" log_sink "[]" "[]"]
        C10_setters_keep_the_sink [of "''app.txt''" log_sink "''/var/log/''" "''.txt''"]
  by (simp add: log_sink_eq)

end
